theory Spec2Isabelle
  imports Main "HOL-Library.Word"
begin

section \<open>The BLE screen \<open>Home.js\<close>: data\<close>

text \<open>
  \<open>Home\<close> is a React function component. Its state lives in six \<open>useState\<close> cells;
  its handlers are closures created anew by every render. A handler reads the values its
  render captured and writes through the setters, so the model passes two things to each
  handler: the \<open>closure\<close> of the render that created it, and the \<open>world\<close> it runs in.
  Calls into the BLE manager, timers and alerts are appended to \<open>effects\<close>, in the order
  the code issues them. What the transport answers to an awaited call is an argument of
  the handler. A handler is given as one run from its call to its end; where a property
  speaks of what happens while it waits, the handler is also given in parts, cut at that
  \<open>await\<close>.
\<close>

type_synonym u8 = "8 word"

datatype error = BleError string | TypeError string | RangeError string

fun message :: "error \<Rightarrow> string" where
  "message (BleError m) = m"
| "message (TypeError m) = m"
| "message (RangeError m) = m"

record device =
  dev_id :: string
  dev_name :: "string option"

text \<open>
  A characteristic as the transport hands it over. The library gives \<open>value\<close> as base64
  text or null; the model carries the payload bytes that text encodes (\<open>None\<close> for null),
  so the empty text is the empty payload.
\<close>

record characteristic =
  char_value :: "u8 list option"

text \<open>\<open>batteryLevel\<close> holds either the number read or the string \<open>'N/A'\<close>.\<close>

datatype battery_level = Level nat | NotAvailable

record device_info =
  manufacturer :: string
  battery :: battery_level

datatype adapter_state =
  Unknown | Resetting | Unsupported | Unauthorized | PoweredOff | PoweredOn

datatype effect =
    ManagerState
  | StartDeviceScan
  | StopDeviceScan
  | SetTimeout nat
  | ConnectToDevice string
  | DiscoverAllServicesAndCharacteristics string
  | Services string
  | Characteristics string
  | ReadCharacteristicForService string string string
  | MonitorCharacteristicForService string string string
  | SubscriptionRemove nat
  | CancelConnection string
  | Alert string string

text \<open>
  \<open>hrSubscription\<close> is declared with \<open>let\<close> in the component body (line 26), so every
  render has a binding of its own, initialised to null; the closures of one render share
  it. The model keeps one cell per render, indexed by the render's number.
\<close>

record world =
  devices :: "device list"
  isScanning :: bool
  connectedDevice :: "device option"
  isConnecting :: bool
  deviceInfo :: "device_info option"
  heartRate :: "nat option"
  hrSubscription :: "nat \<Rightarrow> nat option"
  renders :: nat
  effects :: "effect list"

record closure =
  c_isScanning :: bool
  c_isConnecting :: bool
  c_connectedDevice :: "device option"
  c_render :: nat

type_synonym 'a outcome = "(error + 'a) \<times> world"

definition emit :: "effect \<Rightarrow> world \<Rightarrow> world" where
  "emit e w = w\<lparr>effects := effects w @ [e]\<rparr>"

definition initial :: world where
  "initial = \<lparr>devices = [], isScanning = False, connectedDevice = None,
     isConnecting = False, deviceInfo = None, heartRate = None,
     hrSubscription = (\<lambda>_. None), renders = 0, effects = []\<rparr>"

text \<open>One run of the component body: the state is captured, \<open>hrSubscription\<close> is null.\<close>

definition render :: "world \<Rightarrow> closure \<times> world" where
  "render w =
     (\<lparr>c_isScanning = isScanning w, c_isConnecting = isConnecting w,
       c_connectedDevice = connectedDevice w, c_render = renders w\<rparr>,
      w\<lparr>hrSubscription := (hrSubscription w)(renders w := None),
        renders := Suc (renders w)\<rparr>)"

text \<open>JavaScript truthiness of a string that may be null: present and not empty.\<close>

fun truthy :: "'a list option \<Rightarrow> bool" where
  "truthy None = False"
| "truthy (Some xs) = (xs \<noteq> [])"

section \<open>Buffers\<close>

text \<open>
  \<open>Buffer.from(v, 'base64')\<close> throws a TypeError on null; \<open>readUInt8(i)\<close> throws a
  RangeError when \<open>i\<close> is not an index of the buffer. \<open>toString('utf-8')\<close> belongs to
  the \<open>buffer\<close> library, which is not part of this program: the functions that call it
  take it as their first argument \<open>utf8\<close>, from the bytes of a buffer to its text, and
  what is proved of them holds for every such function.
\<close>

definition Buffer_from :: "u8 list option \<Rightarrow> error + u8 list" where
  "Buffer_from v = (case v of
       None \<Rightarrow> Inl (TypeError ''The first argument must be of type string'')
     | Some bytes \<Rightarrow> Inr bytes)"

definition readUInt8 :: "u8 list \<Rightarrow> nat \<Rightarrow> error + u8" where
  "readUInt8 buf off =
     (if off < length buf then Inr (buf ! off)
      else Inl (RangeError ''Index out of range''))"

section \<open>Reading device information and battery level\<close>

definition DEVICE_INFORMATION :: string where
  "DEVICE_INFORMATION = ''0000180a-0000-1000-8000-00805f9b34fb''"

definition MANUFACTURER_NAME :: string where
  "MANUFACTURER_NAME = ''00002a29-0000-1000-8000-00805f9b34fb''"

definition BATTERY_SERVICE :: string where
  "BATTERY_SERVICE = ''0000180f-0000-1000-8000-00805f9b34fb''"

definition BATTERY_LEVEL :: string where
  "BATTERY_LEVEL = ''00002a19-0000-1000-8000-00805f9b34fb''"

definition HEART_RATE_SERVICE :: string where
  "HEART_RATE_SERVICE = ''0000180d-0000-1000-8000-00805f9b34fb''"

definition HEART_RATE_MEASUREMENT :: string where
  "HEART_RATE_MEASUREMENT = ''00002a37-0000-1000-8000-00805f9b34fb''"

text \<open>
  \<open>safeRead\<close> (lines 193-200): the read and the decoding sit in one \<open>try\<close>; whatever is
  thrown there becomes \<open>'N/A'\<close>. The second argument of each function below that awaits
  the transport is the transport's answer to that call.
\<close>

definition safeRead ::
  "(u8 list \<Rightarrow> string) \<Rightarrow> device \<Rightarrow> string \<Rightarrow> string \<Rightarrow> error + characteristic \<Rightarrow> world
     \<Rightarrow> string \<times> world" where
  "safeRead utf8 dev service char r w =
     (let w1 = emit (ReadCharacteristicForService (dev_id dev) service char) w in
      case r of
        Inl e \<Rightarrow> (''N/A'', w1)
      | Inr res \<Rightarrow>
          (case Buffer_from (char_value res) of
             Inl e \<Rightarrow> (''N/A'', w1)
           | Inr buf \<Rightarrow> (utf8 buf, w1)))"

text \<open>The battery block (lines 208-217).\<close>

definition readBattery ::
  "device \<Rightarrow> error + characteristic \<Rightarrow> world \<Rightarrow> battery_level \<times> world" where
  "readBattery dev r w =
     (let w1 = emit (ReadCharacteristicForService (dev_id dev) BATTERY_SERVICE BATTERY_LEVEL) w in
      case r of
        Inl e \<Rightarrow> (NotAvailable, w1)
      | Inr res \<Rightarrow>
          (case Buffer_from (char_value res) of
             Inl e \<Rightarrow> (NotAvailable, w1)
           | Inr buf \<Rightarrow>
               (case readUInt8 buf 0 of
                  Inl e \<Rightarrow> (NotAvailable, w1)
                | Inr b \<Rightarrow> (Level (unat b), w1))))"

text \<open>
  \<open>readDeviceInfoAndBattery\<close> (lines 191-229). Nothing between the two guarded reads and
  \<open>setDeviceInfo\<close> throws, so the outer \<open>catch\<close> is never entered.
\<close>

definition readDeviceInfoAndBattery ::
  "(u8 list \<Rightarrow> string) \<Rightarrow> device \<Rightarrow> error + characteristic \<Rightarrow> error + characteristic \<Rightarrow> world
     \<Rightarrow> unit outcome" where
  "readDeviceInfoAndBattery utf8 dev rm rb w =
     (let (m, w1) = safeRead utf8 dev DEVICE_INFORMATION MANUFACTURER_NAME rm w;
          (b, w2) = readBattery dev rb w1
      in (Inr (), w2\<lparr>deviceInfo := Some \<lparr>manufacturer = m, battery = b\<rparr>\<rparr>))"

section \<open>Heart-rate notifications\<close>

text \<open>
  The listener passed to \<open>monitorCharacteristicForService\<close> (lines 239-252). It reads
  nothing of the component's state; an exception of \<open>readUInt8\<close> leaves the listener
  before \<open>setHeartRate\<close>.
\<close>

definition heartRateListener ::
  "error option \<Rightarrow> characteristic option \<Rightarrow> world \<Rightarrow> unit outcome" where
  "heartRateListener err ch w =
     (case err of
        Some e \<Rightarrow> (Inr (), w)
      | None \<Rightarrow>
          (case ch of
             None \<Rightarrow> (Inr (), w)
           | Some c \<Rightarrow>
               if truthy (char_value c) then
                 (case Buffer_from (char_value c) of
                    Inl e \<Rightarrow> (Inl e, w)
                  | Inr buffer \<Rightarrow>
                      (case readUInt8 buffer 1 of
                         Inl e \<Rightarrow> (Inl e, w)
                       | Inr bpm \<Rightarrow> (Inr (), w\<lparr>heartRate := Some (unat bpm)\<rparr>)))
               else (Inr (), w)))"

section \<open>Scanning\<close>

text \<open>\<open>ensureBluetoothOn\<close> (lines 65-76); its argument is what \<open>manager.state()\<close> answers.\<close>

definition ensureBluetoothOn :: "error + adapter_state \<Rightarrow> world \<Rightarrow> bool outcome" where
  "ensureBluetoothOn r w =
     (let w1 = emit ManagerState w in
      case r of
        Inl e \<Rightarrow> (Inl e, w1)
      | Inr state \<Rightarrow>
          if state \<noteq> PoweredOn then
            (Inr False,
             emit (Alert ''Bluetooth is Off'' ''Please turn on Bluetooth and try again.'') w1)
          else (Inr True, w1))"

text \<open>
  \<open>scanDevices\<close> (lines 79-119) up to the registration of the listener and of the
  five-second timer; the listener and the timer's callback follow as functions of their
  own, run when the transport or the timer fires.
\<close>

definition scanDevices :: "closure \<Rightarrow> error + adapter_state \<Rightarrow> world \<Rightarrow> unit outcome" where
  "scanDevices c r w =
     (if c_isScanning c then (Inr (), w)
      else
        case ensureBluetoothOn r w of
          (Inl e, w1) \<Rightarrow> (Inl e, w1)
        | (Inr ready, w1) \<Rightarrow>
            if \<not> ready then (Inr (), w1)
            else
              (Inr (),
               emit (SetTimeout 5000)
                 (emit StartDeviceScan
                    (w1\<lparr>devices := [], isScanning := True, connectedDevice := None,
                        deviceInfo := None, heartRate := None\<rparr>))))"

text \<open>The scan listener (lines 95-110); \<open>prev.some(...)\<close> is \<open>list_ex\<close>.\<close>

definition scanListener :: "error option \<Rightarrow> device option \<Rightarrow> world \<Rightarrow> world" where
  "scanListener err scannedDevice w =
     (case err of
        Some e \<Rightarrow> w\<lparr>isScanning := False\<rparr>
      | None \<Rightarrow>
          (case scannedDevice of
             None \<Rightarrow> w
           | Some d \<Rightarrow>
               if truthy (dev_name d) then
                 w\<lparr>devices :=
                     (if list_ex (\<lambda>x. dev_id x = dev_id d) (devices w) then devices w
                      else devices w @ [d])\<rparr>
               else w))"

text \<open>The advertisement events of a scan, in arrival order.\<close>

fun scanEvents :: "(error option \<times> device option) list \<Rightarrow> world \<Rightarrow> world" where
  "scanEvents [] w = w"
| "scanEvents ((err, d) # evs) w = scanEvents evs (scanListener err d w)"

text \<open>The timer's callback (lines 114-118).\<close>

definition scanTimeout :: "world \<Rightarrow> world" where
  "scanTimeout w = (emit StopDeviceScan w)\<lparr>isScanning := False\<rparr>"

definition resetList :: "world \<Rightarrow> world" where
  "resetList w =
     w\<lparr>devices := [], connectedDevice := None, deviceInfo := None, heartRate := None\<rparr>"

section \<open>Connecting\<close>

text \<open>
  \<open>subscribeToHeartRate\<close> (lines 232-257). The subscription the transport returns is
  stored in the \<open>hrSubscription\<close> of the render whose closure is running; an exception of
  the registration is caught and logged.
\<close>

definition subscribeToHeartRate ::
  "closure \<Rightarrow> device \<Rightarrow> error + nat \<Rightarrow> world \<Rightarrow> unit outcome" where
  "subscribeToHeartRate c dev r w =
     (let w1 = emit (MonitorCharacteristicForService (dev_id dev)
                       HEART_RATE_SERVICE HEART_RATE_MEASUREMENT) w in
      case r of
        Inl e \<Rightarrow> (Inr (), w1)
      | Inr sub \<Rightarrow> (Inr (), w1\<lparr>hrSubscription := (hrSubscription w1)(c_render c \<mapsto> sub)\<rparr>))"

text \<open>
  The debugging loop over the services (lines 145-154): each service is asked for its
  characteristics, and a failure there leaves the loop.
\<close>

fun logServices :: "(string \<times> (error + string list)) list \<Rightarrow> world \<Rightarrow> unit outcome" where
  "logServices [] w = (Inr (), w)"
| "logServices ((uuid, r) # rest) w =
     (let w1 = emit (Characteristics uuid) w in
      case r of
        Inl e \<Rightarrow> (Inl e, w1)
      | Inr chars \<Rightarrow> logServices rest w1)"

text \<open>What the transport answers to the awaited calls of one connection attempt.\<close>

record connect_answers =
  a_connect :: "error + device"
  a_discover :: "error + unit"
  a_services :: "error + (string \<times> (error + string list)) list"
  a_manufacturer :: "error + characteristic"
  a_battery :: "error + characteristic"
  a_monitor :: "error + nat"

text \<open>\<open>connected.name || connected.id\<close>\<close>

definition displayName :: "device \<Rightarrow> string" where
  "displayName d = (if truthy (dev_name d) then the (dev_name d) else dev_id d)"

text \<open>
  Lines 133-138: what a connection attempt does before it first waits for the transport.
\<close>

definition connectBegin :: "device \<Rightarrow> world \<Rightarrow> world" where
  "connectBegin dev w =
     emit (ConnectToDevice (dev_id dev)) (emit StopDeviceScan (w\<lparr>isConnecting := True\<rparr>))"

text \<open>
  The \<open>try\<close> block of \<open>connectToDevice\<close> from the answer to the transport connect on
  (lines 138-163). \<open>Inl\<close> is an exception that reaches the \<open>catch\<close>.
\<close>

definition connectResume ::
  "(u8 list \<Rightarrow> string) \<Rightarrow> closure \<Rightarrow> connect_answers \<Rightarrow> world \<Rightarrow> unit outcome" where
  "connectResume utf8 c a w1 =
     (case a_connect a of
        Inl e \<Rightarrow> (Inl e, w1)
      | Inr connected \<Rightarrow>
          (let w2 = emit (DiscoverAllServicesAndCharacteristics (dev_id connected)) w1 in
           (case a_discover a of
              Inl e \<Rightarrow> (Inl e, w2)
            | Inr u \<Rightarrow>
                (let w3 = emit (Services (dev_id connected)) w2 in
                 (case a_services a of
                    Inl e \<Rightarrow> (Inl e, w3)
                  | Inr services \<Rightarrow>
                      (case logServices services w3 of
                         (Inl e, w4) \<Rightarrow> (Inl e, w4)
                       | (Inr u, w4) \<Rightarrow>
                           (case readDeviceInfoAndBattery utf8 connected (a_manufacturer a)
                                   (a_battery a) (w4\<lparr>connectedDevice := Some connected\<rparr>) of
                              (Inl e, w5) \<Rightarrow> (Inl e, w5)
                            | (Inr u, w5) \<Rightarrow>
                                (case subscribeToHeartRate c connected (a_monitor a) w5 of
                                   (Inl e, w6) \<Rightarrow> (Inl e, w6)
                                 | (Inr u, w6) \<Rightarrow>
                                     (Inr (),
                                      emit (Alert ''Connected''
                                              (''Connected to '' @ displayName connected))
                                        w6)))))))))"

text \<open>
  The whole \<open>try\<close> block (lines 132-163); the early \<open>return\<close> of line 132 is \<open>Inr\<close> with
  the world untouched.
\<close>

definition connectTry ::
  "(u8 list \<Rightarrow> string) \<Rightarrow> closure \<Rightarrow> device \<Rightarrow> connect_answers \<Rightarrow> world \<Rightarrow> unit outcome" where
  "connectTry utf8 c dev a w =
     (if c_isConnecting c then (Inr (), w)
      else connectResume utf8 c a (connectBegin dev w))"

text \<open>The \<open>finally\<close> block (lines 167-170).\<close>

definition connectFinally :: "world \<Rightarrow> world" where
  "connectFinally w = w\<lparr>isConnecting := False, isScanning := False\<rparr>"

text \<open>
  The \<open>catch\<close> and the \<open>finally\<close> (lines 164-170), given how the \<open>try\<close> ended: the
  \<open>catch\<close> shows the alert, the \<open>finally\<close> runs on every way out of the \<open>try\<close>, the
  early \<open>return\<close> included.
\<close>

definition connectSettle :: "error + unit \<Rightarrow> world \<Rightarrow> unit outcome" where
  "connectSettle r w1 =
     (Inr (),
      connectFinally
        (case r of
           Inl e \<Rightarrow> emit (Alert ''Connection Failed'' (message e)) w1
         | Inr u \<Rightarrow> w1))"

text \<open>\<open>connectToDevice\<close> (lines 130-171).\<close>

definition connectToDevice ::
  "(u8 list \<Rightarrow> string) \<Rightarrow> closure \<Rightarrow> device \<Rightarrow> connect_answers \<Rightarrow> world \<Rightarrow> unit outcome" where
  "connectToDevice utf8 c dev a w =
     (case connectTry utf8 c dev a w of (r, w1) \<Rightarrow> connectSettle r w1)"

section \<open>Disconnecting\<close>

text \<open>
  \<open>disconnectDevice\<close> (lines 174-188) in two parts, cut at its \<open>await\<close>.
  \<open>disconnectRequest\<close> is the \<open>try\<close> block up to the request of \<open>cancelConnection\<close>;
  \<open>Inl\<close> is an exception of \<open>remove()\<close>, which skips the request.
  \<open>disconnectSettle\<close> takes how the \<open>try\<close> went on (the exception, or the transport's
  answer to \<open>cancelConnection\<close>) and runs the rest: the alert or the \<open>catch\<close>, then the
  \<open>finally\<close>.
\<close>

definition disconnectRequest ::
  "closure \<Rightarrow> device \<Rightarrow> error + unit \<Rightarrow> world \<Rightarrow> unit outcome" where
  "disconnectRequest c d a_remove w =
     (case hrSubscription w (c_render c) of
        None \<Rightarrow> (Inr (), emit (CancelConnection (dev_id d)) w)
      | Some sub \<Rightarrow>
          (let w1 = emit (SubscriptionRemove sub) w in
           case a_remove of
             Inl e \<Rightarrow> (Inl e, w1)
           | Inr u \<Rightarrow> (Inr (), emit (CancelConnection (dev_id d)) w1)))"

definition disconnectSettle :: "error + unit \<Rightarrow> world \<Rightarrow> unit outcome" where
  "disconnectSettle r w =
     (let w1 = (case r of
                  Inl e \<Rightarrow> w
                | Inr u \<Rightarrow> emit (Alert ''Disconnected'' ''Device disconnected successfully.'') w)
      in (Inr (), w1\<lparr>connectedDevice := None, deviceInfo := None, heartRate := None\<rparr>))"

definition disconnectDevice ::
  "closure \<Rightarrow> error + unit \<Rightarrow> error + unit \<Rightarrow> world \<Rightarrow> unit outcome" where
  "disconnectDevice c a_remove a_cancel w =
     (case c_connectedDevice c of
        None \<Rightarrow> (Inr (), w)
      | Some d \<Rightarrow>
          (case disconnectRequest c d a_remove w of
             (Inl e, w1) \<Rightarrow> disconnectSettle (Inl e) w1
           | (Inr u, w1) \<Rightarrow> disconnectSettle a_cancel w1))"

text \<open>
  A press on the screen runs the handler of the latest render. A handler that stores a
  subscription has changed the state before and has waited for the transport since
  (\<open>setIsConnecting(true)\<close>, then the awaited calls), so the component has rendered
  again by then and a later press meets a later render: the press renders, then runs the
  handler.
\<close>

definition press :: "(closure \<Rightarrow> world \<Rightarrow> unit outcome) \<Rightarrow> world \<Rightarrow> unit outcome" where
  "press handler w = (let (c, w1) = render w in handler c w1)"

section \<open>Notions used to state the properties\<close>

fun isCancelConnection :: "effect \<Rightarrow> bool" where
  "isCancelConnection (CancelConnection d) = True"
| "isCancelConnection e = False"

fun isSubscriptionRemove :: "effect \<Rightarrow> bool" where
  "isSubscriptionRemove (SubscriptionRemove s) = True"
| "isSubscriptionRemove e = False"

text \<open>The peripherals of the events that carry no error, in arrival order.\<close>

fun advertised :: "(error option \<times> device option) list \<Rightarrow> device list" where
  "advertised [] = []"
| "advertised ((None, Some d) # evs) = d # advertised evs"
| "advertised (ev # evs) = advertised evs"

text \<open>
  First-seen order, as the specification words it: every identity once, at the place of
  its first occurrence, with the handle of that occurrence.
\<close>

fun firstSeen :: "device list \<Rightarrow> device list" where
  "firstSeen [] = []"
| "firstSeen (d # ds) = d # firstSeen (filter (\<lambda>x. dev_id x \<noteq> dev_id d) ds)"

text \<open>
  The first failing call of the debugging loop, and the first failing call among those
  of a connection attempt that are not guarded by a \<open>try\<close> of their own: transport
  connect, service discovery, the services query, the characteristics queries.
\<close>

fun firstFailure :: "(string \<times> (error + string list)) list \<Rightarrow> error option" where
  "firstFailure [] = None"
| "firstFailure ((uuid, Inl e) # rest) = Some e"
| "firstFailure ((uuid, Inr chars) # rest) = firstFailure rest"

definition sequenceFailure :: "connect_answers \<Rightarrow> error option" where
  "sequenceFailure a =
     (case a_connect a of
        Inl e \<Rightarrow> Some e
      | Inr connected \<Rightarrow>
          (case a_discover a of
             Inl e \<Rightarrow> Some e
           | Inr u \<Rightarrow>
               (case a_services a of
                  Inl e \<Rightarrow> Some e
                | Inr services \<Rightarrow> firstFailure services)))"

text \<open>The characteristics queries the debugging loop issues.\<close>

fun queried :: "(string \<times> (error + string list)) list \<Rightarrow> effect list" where
  "queried [] = []"
| "queried ((uuid, Inl e) # rest) = [Characteristics uuid]"
| "queried ((uuid, Inr chars) # rest) = Characteristics uuid # queried rest"

section \<open>A session, step by step\<close>

text \<open>
  A heart-rate band, a transport that answers every call, and the worlds a user reaches
  with it: \<open>scanned\<close> after a press on Scan and the band's advertisement, \<open>linked\<close> after
  a press on the band in the list, \<open>connecting\<close> while that press still waits for the
  transport connection.
\<close>

definition band :: device where
  "band = \<lparr>dev_id = ''AA:01'', dev_name = Some ''Band''\<rparr>"

definition answered :: connect_answers where
  "answered = \<lparr>a_connect = Inr band, a_discover = Inr (),
     a_services = Inr [(HEART_RATE_SERVICE, Inr [HEART_RATE_MEASUREMENT])],
     a_manufacturer = Inr \<lparr>char_value = Some [65, 67, 77, 69]\<rparr>,
     a_battery = Inr \<lparr>char_value = Some [67]\<rparr>,
     a_monitor = Inr 7\<rparr>"

text \<open>
  The decoder of the example. Its payloads hold ASCII bytes only, and the UTF-8 text of
  ASCII bytes has one character for each byte.
\<close>

definition asciiText :: "u8 list \<Rightarrow> string" where
  "asciiText buf = map (\<lambda>b. char_of (unat b)) buf"

definition scanned :: world where
  "scanned = scanListener None (Some band)
     (snd (press (\<lambda>c. scanDevices c (Inr PoweredOn)) initial))"

definition linked :: world where
  "linked = snd (press (\<lambda>c. connectToDevice asciiText c band answered) scanned)"


section \<open>Frame lemmas\<close>

lemma emit_fields [simp]:
  "devices (emit e w) = devices w"
  "isScanning (emit e w) = isScanning w"
  "connectedDevice (emit e w) = connectedDevice w"
  "isConnecting (emit e w) = isConnecting w"
  "deviceInfo (emit e w) = deviceInfo w"
  "heartRate (emit e w) = heartRate w"
  "hrSubscription (emit e w) = hrSubscription w"
  "renders (emit e w) = renders w"
  "effects (emit e w) = effects w @ [e]"
  by (simp_all add: emit_def)

lemma readDeviceInfoAndBattery_fields:
  "fst (readDeviceInfoAndBattery utf8 dev rm rb w) = Inr ()"
  "devices (snd (readDeviceInfoAndBattery utf8 dev rm rb w)) = devices w"
  "isScanning (snd (readDeviceInfoAndBattery utf8 dev rm rb w)) = isScanning w"
  "connectedDevice (snd (readDeviceInfoAndBattery utf8 dev rm rb w)) = connectedDevice w"
  "isConnecting (snd (readDeviceInfoAndBattery utf8 dev rm rb w)) = isConnecting w"
  "heartRate (snd (readDeviceInfoAndBattery utf8 dev rm rb w)) = heartRate w"
  "hrSubscription (snd (readDeviceInfoAndBattery utf8 dev rm rb w)) = hrSubscription w"
  "renders (snd (readDeviceInfoAndBattery utf8 dev rm rb w)) = renders w"
  "effects (snd (readDeviceInfoAndBattery utf8 dev rm rb w)) = effects w @
     [ReadCharacteristicForService (dev_id dev) DEVICE_INFORMATION MANUFACTURER_NAME,
      ReadCharacteristicForService (dev_id dev) BATTERY_SERVICE BATTERY_LEVEL]"
  by (simp_all add: readDeviceInfoAndBattery_def safeRead_def readBattery_def Let_def
      split: sum.splits prod.splits)

lemma subscribeToHeartRate_fields:
  "fst (subscribeToHeartRate c dev r w) = Inr ()"
  "devices (snd (subscribeToHeartRate c dev r w)) = devices w"
  "isScanning (snd (subscribeToHeartRate c dev r w)) = isScanning w"
  "connectedDevice (snd (subscribeToHeartRate c dev r w)) = connectedDevice w"
  "isConnecting (snd (subscribeToHeartRate c dev r w)) = isConnecting w"
  "deviceInfo (snd (subscribeToHeartRate c dev r w)) = deviceInfo w"
  "heartRate (snd (subscribeToHeartRate c dev r w)) = heartRate w"
  "renders (snd (subscribeToHeartRate c dev r w)) = renders w"
  "effects (snd (subscribeToHeartRate c dev r w)) = effects w @
     [MonitorCharacteristicForService (dev_id dev) HEART_RATE_SERVICE HEART_RATE_MEASUREMENT]"
  "hrSubscription (snd (subscribeToHeartRate c dev r w)) =
     (case r of Inl e \<Rightarrow> hrSubscription w | Inr sub \<Rightarrow> (hrSubscription w)(c_render c \<mapsto> sub))"
  by (simp_all add: subscribeToHeartRate_def Let_def split: sum.splits)

lemma logServices_eq:
  "logServices ss w =
     (case firstFailure ss of Some e \<Rightarrow> Inl e | None \<Rightarrow> Inr (),
      w\<lparr>effects := effects w @ queried ss\<rparr>)"
proof (induction ss arbitrary: w)
  case Nil
  then show ?case by simp
next
  case (Cons s ss)
  obtain uuid r where s: "s = (uuid, r)" by (cases s)
  show ?case
  proof (cases r)
    case (Inl e)
    then show ?thesis using s by (simp add: emit_def)
  next
    case (Inr chars)
    then show ?thesis using s Cons.IH [of "emit (Characteristics uuid) w"]
      by (simp add: emit_def)
  qed
qed

lemma queried_no_cancel: "filter isCancelConnection (queried ss) = []"
  by (induction ss rule: queried.induct) simp_all

section \<open>The connection attempt\<close>

lemma connectTry_failure:
  assumes "\<not> c_isConnecting c" and "sequenceFailure a = Some e"
  shows "fst (connectTry utf8 c dev a w) = Inl e
       \<and> connectedDevice (snd (connectTry utf8 c dev a w)) = connectedDevice w
       \<and> deviceInfo (snd (connectTry utf8 c dev a w)) = deviceInfo w
       \<and> heartRate (snd (connectTry utf8 c dev a w)) = heartRate w
       \<and> filter isCancelConnection (effects (snd (connectTry utf8 c dev a w)))
           = filter isCancelConnection (effects w)"
proof (cases "a_connect a")
  case (Inl e1)
  then show ?thesis using assms
    by (simp add: connectTry_def connectResume_def connectBegin_def sequenceFailure_def)
next
  case connect: (Inr connected)
  show ?thesis
  proof (cases "a_discover a")
    case (Inl e2)
    then show ?thesis using assms connect
      by (simp add: connectTry_def connectResume_def connectBegin_def sequenceFailure_def)
  next
    case discover: (Inr u)
    show ?thesis
    proof (cases "a_services a")
      case (Inl e3)
      then show ?thesis using assms connect discover
        by (simp add: connectTry_def connectResume_def connectBegin_def sequenceFailure_def)
    next
      case (Inr services)
      then have "firstFailure services = Some e"
        using assms connect discover by (simp add: sequenceFailure_def)
      then show ?thesis using assms(1) connect discover Inr
        by (simp add: connectTry_def connectResume_def connectBegin_def logServices_eq
            queried_no_cancel)
    qed
  qed
qed

lemma connectTry_success:
  assumes "\<not> c_isConnecting c" and "sequenceFailure a = None"
  shows "\<exists>connected services. a_connect a = Inr connected \<and> a_services a = Inr services
       \<and> fst (connectTry utf8 c dev a w) = Inr ()
       \<and> effects (snd (connectTry utf8 c dev a w)) = effects w @
           [StopDeviceScan, ConnectToDevice (dev_id dev),
            DiscoverAllServicesAndCharacteristics (dev_id connected),
            Services (dev_id connected)] @ queried services @
           [ReadCharacteristicForService (dev_id connected) DEVICE_INFORMATION MANUFACTURER_NAME,
            ReadCharacteristicForService (dev_id connected) BATTERY_SERVICE BATTERY_LEVEL,
            MonitorCharacteristicForService (dev_id connected)
              HEART_RATE_SERVICE HEART_RATE_MEASUREMENT,
            Alert ''Connected'' (''Connected to '' @ displayName connected)]
       \<and> connectedDevice (snd (connectTry utf8 c dev a w)) = Some connected
       \<and> heartRate (snd (connectTry utf8 c dev a w)) = heartRate w
       \<and> renders (snd (connectTry utf8 c dev a w)) = renders w
       \<and> hrSubscription (snd (connectTry utf8 c dev a w)) =
           (case a_monitor a of
              Inl e \<Rightarrow> hrSubscription w
            | Inr sub \<Rightarrow> (hrSubscription w)(c_render c \<mapsto> sub))"
proof -
  from assms(2) obtain connected where connect: "a_connect a = Inr connected"
    by (cases "a_connect a") (simp_all add: sequenceFailure_def)
  from assms(2) connect obtain u where discover: "a_discover a = Inr u"
    by (cases "a_discover a") (simp_all add: sequenceFailure_def)
  from assms(2) connect discover obtain services where
    services: "a_services a = Inr services" and ok: "firstFailure services = None"
    by (cases "a_services a") (simp_all add: sequenceFailure_def)
  show ?thesis
    using assms(1) connect discover services ok
    by (simp add: connectTry_def connectResume_def connectBegin_def logServices_eq split_beta
        readDeviceInfoAndBattery_fields subscribeToHeartRate_fields split: sum.splits)
qed

section \<open>The session of the example\<close>

lemma scanned_fields:
  "devices scanned = [band]" "isScanning scanned = True" "isConnecting scanned = False"
  "connectedDevice scanned = None" "heartRate scanned = None" "renders scanned = 1"
  "effects scanned = [ManagerState, StartDeviceScan, SetTimeout 5000]"
  by (simp_all add: scanned_def press_def render_def scanDevices_def ensureBluetoothOn_def
      scanListener_def initial_def band_def)

lemma asciiText_ACME: "asciiText [65, 67, 77, 69] = ''ACME''"
  by (simp add: asciiText_def char_of_def bit_Suc_0_iff)

lemma answered_ok: "sequenceFailure answered = None"
  by (simp add: sequenceFailure_def answered_def)

lemma linked_fields:
  "connectedDevice linked = Some band" "hrSubscription linked 1 = Some 7"
  "renders linked = 2" "isConnecting linked = False" "isScanning linked = False"
  "heartRate linked = None" "filter isCancelConnection (effects linked) = []"
  "filter isSubscriptionRemove (effects linked) = []"
proof -
  let ?c = "fst (render scanned)" and ?w = "snd (render scanned)"
  have c: "\<not> c_isConnecting ?c" "c_render ?c = 1"
    and w: "renders ?w = 2" "heartRate ?w = None"
      "effects ?w = [ManagerState, StartDeviceScan, SetTimeout 5000]"
    by (simp_all add: render_def scanned_fields)
  have l: "linked = snd (connectToDevice asciiText ?c band answered ?w)"
    by (simp add: linked_def press_def split_beta)
  from connectTry_success [OF c(1) answered_ok, of asciiText band ?w]
  show "connectedDevice linked = Some band" "hrSubscription linked 1 = Some 7"
    "renders linked = 2" "isConnecting linked = False" "isScanning linked = False"
    "heartRate linked = None" "filter isCancelConnection (effects linked) = []"
    "filter isSubscriptionRemove (effects linked) = []"
    by (simp_all add: l connectToDevice_def connectSettle_def connectFinally_def split_beta c w answered_def)
qed


section \<open>Connecting: the guard against a second attempt\<close>



section \<open>Connecting: failures\<close>

text \<open>
  Claim C2, as the code has it. In an attempt that passes the guard, when the transport
  connect, the service discovery, the services query or a characteristics query fails
  with \<open>e\<close>: nothing is thrown, the last effect is the alert \<open>Connection Failed\<close> with the
  message of \<open>e\<close>, \<open>isConnecting\<close> and \<open>isScanning\<close> are false, the connected device, the
  device information and the heart rate are as before the attempt, and no
  \<open>cancelConnection\<close> has been issued. When none of these calls fails, the attempt ends
  with the alert \<open>Connected\<close> and the new connected device, whatever the two
  characteristic reads and the heart-rate subscription answer.
\<close>

theorem connect_failure:
  assumes "\<not> c_isConnecting c"
  shows "(\<forall>e. sequenceFailure a = Some e \<longrightarrow>
            fst (connectToDevice utf8 c dev a w) = Inr ()
          \<and> last (effects (snd (connectToDevice utf8 c dev a w)))
              = Alert ''Connection Failed'' (message e)
          \<and> \<not> isConnecting (snd (connectToDevice utf8 c dev a w))
          \<and> \<not> isScanning (snd (connectToDevice utf8 c dev a w))
          \<and> connectedDevice (snd (connectToDevice utf8 c dev a w)) = connectedDevice w
          \<and> deviceInfo (snd (connectToDevice utf8 c dev a w)) = deviceInfo w
          \<and> heartRate (snd (connectToDevice utf8 c dev a w)) = heartRate w
          \<and> filter isCancelConnection (effects (snd (connectToDevice utf8 c dev a w)))
              = filter isCancelConnection (effects w))
       \<and> (sequenceFailure a = None \<longrightarrow>
            (\<exists>connected. a_connect a = Inr connected
               \<and> last (effects (snd (connectToDevice utf8 c dev a w)))
                   = Alert ''Connected'' (''Connected to '' @ displayName connected)
               \<and> connectedDevice (snd (connectToDevice utf8 c dev a w)) = Some connected))"
proof (intro conjI allI impI)
  fix e assume "sequenceFailure a = Some e"
  from connectTry_failure [OF assms this, of utf8 dev w]
  show "fst (connectToDevice utf8 c dev a w) = Inr ()"
    and "last (effects (snd (connectToDevice utf8 c dev a w))) = Alert ''Connection Failed'' (message e)"
    and "\<not> isConnecting (snd (connectToDevice utf8 c dev a w))"
    and "\<not> isScanning (snd (connectToDevice utf8 c dev a w))"
    and "connectedDevice (snd (connectToDevice utf8 c dev a w)) = connectedDevice w"
    and "deviceInfo (snd (connectToDevice utf8 c dev a w)) = deviceInfo w"
    and "heartRate (snd (connectToDevice utf8 c dev a w)) = heartRate w"
    and "filter isCancelConnection (effects (snd (connectToDevice utf8 c dev a w)))
              = filter isCancelConnection (effects w)"
    by (simp_all add: connectToDevice_def connectSettle_def connectFinally_def split_beta)
next
  assume "sequenceFailure a = None"
  from connectTry_success [OF assms this, of utf8 dev w]
  show "\<exists>connected. a_connect a = Inr connected
               \<and> last (effects (snd (connectToDevice utf8 c dev a w)))
                   = Alert ''Connected'' (''Connected to '' @ displayName connected)
               \<and> connectedDevice (snd (connectToDevice utf8 c dev a w)) = Some connected"
    by (auto simp: connectToDevice_def connectSettle_def connectFinally_def split_beta)
qed

theorem connect_failure_witness:
  "\<not> c_isConnecting (fst (render scanned))
   \<and> last (effects (snd (connectToDevice asciiText (fst (render scanned)) band
        (answered\<lparr>a_discover := Inl (BleError ''timeout'')\<rparr>) (snd (render scanned)))))
       = Alert ''Connection Failed'' ''timeout''
   \<and> connectedDevice (snd (connectToDevice asciiText (fst (render scanned)) band
        (answered\<lparr>a_discover := Inl (BleError ''timeout'')\<rparr>) (snd (render scanned)))) = None
   \<and> last (effects (snd (connectToDevice asciiText (fst (render scanned)) band
        (answered\<lparr>a_battery := Inl (BleError ''no battery service'')\<rparr>)
        (snd (render scanned)))))
       = Alert ''Connected'' ''Connected to Band''"
proof -
  have c: "\<not> c_isConnecting (fst (render scanned))"
    and w: "connectedDevice (snd (render scanned)) = None"
    by (simp_all add: render_def scanned_fields)
  have f: "sequenceFailure (answered\<lparr>a_discover := Inl (BleError ''timeout'')\<rparr>)
             = Some (BleError ''timeout'')"
    and s: "sequenceFailure (answered\<lparr>a_battery := Inl (BleError ''no battery service'')\<rparr>)
             = None"
    and n: "a_connect (answered\<lparr>a_battery := Inl (BleError ''no battery service'')\<rparr>)
             = Inr band"
    by (simp_all add: sequenceFailure_def answered_def)
  show ?thesis
    using c w f s n
      connect_failure [OF c, of "answered\<lparr>a_discover := Inl (BleError ''timeout'')\<rparr>"
        asciiText band "snd (render scanned)"]
      connect_failure [OF c, of "answered\<lparr>a_battery := Inl (BleError ''no battery service'')\<rparr>"
        asciiText band "snd (render scanned)"]
    by (simp add: displayName_def band_def)
qed

text \<open>
  The transport connection is up and the service discovery fails: the failure is shown,
  and the log holds no \<open>cancelConnection\<close>. The battery read fails: the attempt ends as
  connected.
\<close>

theorem connect_failure_counterexample:
  "a_connect (answered\<lparr>a_discover := Inl (BleError ''timeout'')\<rparr>) = Inr band
   \<and> filter isCancelConnection (effects (snd (connectToDevice asciiText (fst (render scanned)) band
        (answered\<lparr>a_discover := Inl (BleError ''timeout'')\<rparr>) (snd (render scanned))))) = []
   \<and> (a_battery (answered\<lparr>a_battery := Inl (BleError ''no battery service'')\<rparr>)
        = Inl (BleError ''no battery service'')
   \<and> last (effects (snd (connectToDevice asciiText (fst (render scanned)) band
        (answered\<lparr>a_battery := Inl (BleError ''no battery service'')\<rparr>)
        (snd (render scanned)))))
       \<noteq> Alert ''Connection Failed'' ''no battery service'')"
proof -
  have c: "\<not> c_isConnecting (fst (render scanned))"
    and w: "effects (snd (render scanned)) = [ManagerState, StartDeviceScan, SetTimeout 5000]"
    by (simp_all add: render_def scanned_fields)
  have f: "sequenceFailure (answered\<lparr>a_discover := Inl (BleError ''timeout'')\<rparr>)
             = Some (BleError ''timeout'')"
    and s: "sequenceFailure (answered\<lparr>a_battery := Inl (BleError ''no battery service'')\<rparr>)
             = None"
    by (simp_all add: sequenceFailure_def answered_def)
  show ?thesis
    using w connectTry_failure [OF c f, of asciiText band "snd (render scanned)"]
      connectTry_success [OF c s, of asciiText band "snd (render scanned)"]
    by (simp add: connectToDevice_def connectSettle_def connectFinally_def split_beta answered_def)
qed

section \<open>Properties of disconnecting\<close>

lemma press_disconnect_effects:
  "effects (snd (press (\<lambda>c. disconnectDevice c a_remove a_cancel) w)) = effects w @
     (case connectedDevice w of
        None \<Rightarrow> []
      | Some d \<Rightarrow> CancelConnection (dev_id d) #
          (case a_cancel of
             Inl e \<Rightarrow> []
           | Inr u \<Rightarrow> [Alert ''Disconnected'' ''Device disconnected successfully.'']))"
  by (simp add: press_def render_def disconnectDevice_def disconnectRequest_def
      disconnectSettle_def connectFinally_def split: option.splits sum.splits)

lemma press_disconnectRequest:
  "snd (press (\<lambda>c. disconnectRequest c d a_remove) w) =
     emit (CancelConnection (dev_id d))
       (w\<lparr>hrSubscription := (hrSubscription w)(renders w := None), renders := Suc (renders w)\<rparr>)"
  by (simp add: press_def render_def disconnectRequest_def)

text \<open>
  Claim C3 fails on the code. The band is connected by a press in the list, which stores
  the subscription in the \<open>hrSubscription\<close> of that render (render 1). The press on
  Disconnect runs the handler of a later render, whose \<open>hrSubscription\<close> is null: the
  log gains the \<open>cancelConnection\<close> and no \<open>remove()\<close>, and a notification that arrives
  while \<open>cancelConnection\<close> is awaited sets the heart rate.
\<close>

theorem disconnect_leaves_subscription:
  "hrSubscription linked 1 = Some 7
   \<and> connectedDevice linked = Some band
   \<and> effects (snd (press (\<lambda>c. disconnectDevice c (Inr ()) (Inr ())) linked))
       = effects linked @ [CancelConnection ''AA:01'',
                           Alert ''Disconnected'' ''Device disconnected successfully.'']
   \<and> filter isSubscriptionRemove
         (effects (snd (press (\<lambda>c. disconnectDevice c (Inr ()) (Inr ())) linked))) = []
   \<and> heartRate (snd (press (\<lambda>c. disconnectRequest c band (Inr ())) linked)) = None
   \<and> heartRate (snd (heartRateListener None (Some \<lparr>char_value = Some [0, 72]\<rparr>)
        (snd (press (\<lambda>c. disconnectRequest c band (Inr ())) linked)))) = Some 72"
proof (intro conjI)
  show "hrSubscription linked 1 = Some 7" "connectedDevice linked = Some band"
    by (rule linked_fields)+
  show "effects (snd (press (\<lambda>c. disconnectDevice c (Inr ()) (Inr ())) linked))
       = effects linked @ [CancelConnection ''AA:01'',
                           Alert ''Disconnected'' ''Device disconnected successfully.'']"
    unfolding press_disconnect_effects by (simp add: linked_fields band_def)
  show "filter isSubscriptionRemove
         (effects (snd (press (\<lambda>c. disconnectDevice c (Inr ()) (Inr ())) linked))) = []"
    unfolding press_disconnect_effects by (simp add: linked_fields)
  show "heartRate (snd (press (\<lambda>c. disconnectRequest c band (Inr ())) linked)) = None"
    unfolding press_disconnectRequest by (simp add: linked_fields)
  show "heartRate (snd (heartRateListener None (Some \<lparr>char_value = Some [0, 72]\<rparr>)
        (snd (press (\<lambda>c. disconnectRequest c band (Inr ())) linked)))) = Some 72"
    unfolding press_disconnectRequest
    by (simp add: heartRateListener_def Buffer_from_def readUInt8_def)
qed

text \<open>
  Claim C7. With no connected device in its closure \<open>disconnectDevice\<close> changes nothing.
  Otherwise, whatever \<open>remove()\<close> and \<open>cancelConnection\<close> answer, it throws nothing and
  leaves the connected device, the device information and the heart rate empty.
\<close>

theorem disconnect_teardown:
  "(c_connectedDevice c = None \<longrightarrow> disconnectDevice c a_remove a_cancel w = (Inr (), w))
   \<and> (c_connectedDevice c \<noteq> None \<longrightarrow>
        fst (disconnectDevice c a_remove a_cancel w) = Inr ()
        \<and> connectedDevice (snd (disconnectDevice c a_remove a_cancel w)) = None
        \<and> deviceInfo (snd (disconnectDevice c a_remove a_cancel w)) = None
        \<and> heartRate (snd (disconnectDevice c a_remove a_cancel w)) = None)"
  by (auto simp: disconnectDevice_def disconnectRequest_def disconnectSettle_def connectFinally_def Let_def
      split: option.splits sum.splits prod.splits)

theorem disconnect_teardown_witness:
  "c_connectedDevice (fst (render initial)) = None
   \<and> disconnectDevice (fst (render initial)) (Inr ()) (Inr ()) (snd (render initial))
       = (Inr (), snd (render initial))
   \<and> c_connectedDevice (fst (render linked)) = Some band
   \<and> fst (disconnectDevice (fst (render linked)) (Inr ())
        (Inl (BleError ''Operation was cancelled'')) (snd (render linked))) = Inr ()
   \<and> connectedDevice (snd (disconnectDevice (fst (render linked)) (Inr ())
        (Inl (BleError ''Operation was cancelled'')) (snd (render linked)))) = None
   \<and> deviceInfo (snd (disconnectDevice (fst (render linked)) (Inr ())
        (Inl (BleError ''Operation was cancelled'')) (snd (render linked)))) = None
   \<and> heartRate (snd (disconnectDevice (fst (render linked)) (Inr ())
        (Inl (BleError ''Operation was cancelled'')) (snd (render linked)))) = None"
proof -
  have i: "c_connectedDevice (fst (render initial)) = None"
    by (simp add: render_def initial_def)
  have l: "c_connectedDevice (fst (render linked)) = Some band"
    by (simp add: render_def linked_fields)
  show ?thesis
    using i l
      disconnect_teardown [of "fst (render initial)" "Inr ()" "Inr ()" "snd (render initial)"]
      disconnect_teardown [of "fst (render linked)" "Inr ()"
        "Inl (BleError ''Operation was cancelled'')" "snd (render linked)"]
    by simp
qed

section \<open>Properties of the characteristic reads\<close>

text \<open>
  Claim C4, as the code has it. The battery field is the first byte of the payload read
  as an unsigned 8-bit number, whatever its value (0 to 255: the code has no check
  against 100). It is \<open>'N/A'\<close> when the read fails, when the value is null, and when the
  payload has no byte at offset 0.
\<close>

theorem battery_decoding:
  "map_option battery (deviceInfo (snd (readDeviceInfoAndBattery utf8 dev rm rb w)))
     = Some (case rb of
               Inl e \<Rightarrow> NotAvailable
             | Inr res \<Rightarrow>
                 (case char_value res of
                    None \<Rightarrow> NotAvailable
                  | Some [] \<Rightarrow> NotAvailable
                  | Some (b # bs) \<Rightarrow> Level (unat b)))"
  by (simp add: readDeviceInfoAndBattery_def safeRead_def readBattery_def Buffer_from_def
      readUInt8_def Let_def split: sum.splits option.splits list.splits prod.splits)

theorem battery_decoding_witness:
  "map_option battery (deviceInfo (snd (readDeviceInfoAndBattery asciiText band
       (Inr \<lparr>char_value = Some [65, 67, 77, 69]\<rparr>) (Inr \<lparr>char_value = Some [67]\<rparr>) initial)))
     = Some (Level 67)
   \<and> map_option battery (deviceInfo (snd (readDeviceInfoAndBattery asciiText band
       (Inr \<lparr>char_value = Some [65, 67, 77, 69]\<rparr>) (Inr \<lparr>char_value = Some []\<rparr>) initial)))
     = Some NotAvailable"
  using battery_decoding [of asciiText band "Inr \<lparr>char_value = Some [65, 67, 77, 69]\<rparr>"
          "Inr \<lparr>char_value = Some [67]\<rparr>" initial]
    battery_decoding [of asciiText band "Inr \<lparr>char_value = Some [65, 67, 77, 69]\<rparr>"
          "Inr \<lparr>char_value = Some []\<rparr>" initial]
  by simp

text \<open>A battery payload of one byte, 200: the field is 200, not \<open>'N/A'\<close>.\<close>

theorem battery_decoding_counterexample:
  "\<not> (200 :: nat) \<le> 100
   \<and> deviceInfo (snd (readDeviceInfoAndBattery asciiText band (Inl (BleError ''no service''))
        (Inr \<lparr>char_value = Some [200]\<rparr>) initial))
     = Some \<lparr>manufacturer = ''N/A'', battery = Level 200\<rparr>"
  by (simp add: readDeviceInfoAndBattery_def safeRead_def readBattery_def Buffer_from_def
      readUInt8_def)

text \<open>
  Claim C5. \<open>readDeviceInfoAndBattery\<close> throws nothing, issues both reads, the
  manufacturer name first, and stores a device information whose two fields are each
  decided by the answer to their own read alone. The manufacturer is \<open>'N/A'\<close> when its
  read fails or gives a null value, and the text of the payload otherwise; the battery
  is \<open>'N/A'\<close> when its read fails, gives a null value or gives an empty payload, and
  the first byte of the payload otherwise. So when one of the two reads fails, its field
  is \<open>'N/A'\<close> and the other field is what the other read gave.
\<close>

theorem readDeviceInfo_isolation:
  "readDeviceInfoAndBattery utf8 dev rm rb w =
     (Inr (),
      w\<lparr>deviceInfo := Some
           \<lparr>manufacturer =
              (case rm of
                 Inl e \<Rightarrow> ''N/A''
               | Inr res \<Rightarrow>
                   (case char_value res of
                      None \<Rightarrow> ''N/A''
                    | Some bytes \<Rightarrow> utf8 bytes)),
            battery =
              (case rb of
                 Inl e \<Rightarrow> NotAvailable
               | Inr res \<Rightarrow>
                   (case char_value res of
                      None \<Rightarrow> NotAvailable
                    | Some [] \<Rightarrow> NotAvailable
                    | Some (b # bs) \<Rightarrow> Level (unat b)))\<rparr>,
         effects := effects w @
           [ReadCharacteristicForService (dev_id dev) DEVICE_INFORMATION MANUFACTURER_NAME,
            ReadCharacteristicForService (dev_id dev) BATTERY_SERVICE BATTERY_LEVEL]\<rparr>)"
  by (simp add: readDeviceInfoAndBattery_def safeRead_def readBattery_def Buffer_from_def
      readUInt8_def emit_def split: sum.splits option.splits list.splits)

theorem readDeviceInfo_isolation_witness:
  "deviceInfo (snd (readDeviceInfoAndBattery asciiText band (Inl (BleError ''no service''))
       (Inr \<lparr>char_value = Some [67]\<rparr>) initial))
     = Some \<lparr>manufacturer = ''N/A'', battery = Level 67\<rparr>
   \<and> deviceInfo (snd (readDeviceInfoAndBattery asciiText band
       (Inr \<lparr>char_value = Some [65, 67, 77, 69]\<rparr>) (Inr \<lparr>char_value = None\<rparr>) initial))
     = Some \<lparr>manufacturer = ''ACME'', battery = NotAvailable\<rparr>
   \<and> deviceInfo (snd (readDeviceInfoAndBattery asciiText band (Inr \<lparr>char_value = None\<rparr>)
       (Inr \<lparr>char_value = Some []\<rparr>) initial))
     = Some \<lparr>manufacturer = ''N/A'', battery = NotAvailable\<rparr>"
  using readDeviceInfo_isolation [of asciiText band "Inl (BleError ''no service'')"
          "Inr \<lparr>char_value = Some [67]\<rparr>" initial]
    readDeviceInfo_isolation [of asciiText band "Inr \<lparr>char_value = Some [65, 67, 77, 69]\<rparr>"
          "Inr \<lparr>char_value = None\<rparr>" initial]
    readDeviceInfo_isolation [of asciiText band "Inr \<lparr>char_value = None\<rparr>"
          "Inr \<lparr>char_value = Some []\<rparr>" initial]
  by (simp add: asciiText_ACME)

section \<open>Properties of scanning\<close>

lemma scanEvents_devices:
  "devices (scanEvents evs w) =
     devices w @ firstSeen (filter (\<lambda>d. dev_id d \<notin> dev_id ` set (devices w))
                              (filter (\<lambda>d. truthy (dev_name d)) (advertised evs)))"
proof (induction evs arbitrary: w)
  case Nil
  then show ?case by simp
next
  case (Cons ev evs)
  obtain err sd where ev: "ev = (err, sd)" by (cases ev)
  show ?case
  proof (cases err)
    case (Some e)
    then show ?thesis using Cons.IH [of "w\<lparr>isScanning := False\<rparr>"] ev
      by (simp add: scanListener_def)
  next
    case None
    show ?thesis
    proof (cases sd)
      case N: None
      then show ?thesis using Cons.IH [of w] ev None by (simp add: scanListener_def)
    next
      case (Some d)
      show ?thesis
      proof (cases "truthy (dev_name d)")
        case False
        then show ?thesis using Cons.IH [of w] ev None Some by (simp add: scanListener_def)
      next
        case True
        show ?thesis
        proof (cases "list_ex (\<lambda>x. dev_id x = dev_id d) (devices w)")
          case ex: True
          then have "dev_id d \<in> dev_id ` set (devices w)"
            unfolding list_ex_iff by (metis imageI)
          then show ?thesis using Cons.IH [of w] ev None Some True ex
            by (simp add: scanListener_def)
        next
          case nex: False
          then have "dev_id d \<notin> dev_id ` set (devices w)"
            unfolding list_ex_iff by (metis imageE)
          then show ?thesis
            using Cons.IH [of "w\<lparr>devices := devices w @ [d]\<rparr>"] ev None Some True nex
            by (simp add: scanListener_def conj_commute conj_left_commute)
        qed
      qed
    qed
  qed
qed

lemma firstSeen_subset: "set (firstSeen ds) \<subseteq> set ds"
  by (induction ds rule: firstSeen.induct) auto

lemma firstSeen_distinct: "distinct (map dev_id (firstSeen ds))"
proof (induction ds rule: firstSeen.induct)
  case 1
  then show ?case by simp
next
  case (2 d ds)
  have "dev_id d \<notin> dev_id ` set (firstSeen (filter (\<lambda>x. dev_id x \<noteq> dev_id d) ds))"
    using firstSeen_subset [of "filter (\<lambda>x. dev_id x \<noteq> dev_id d) ds"] by auto
  with 2 show ?case by simp
qed

text \<open>
  Claim C6. A scan starts from the empty list. After any sequence of listener events the
  list is the named peripherals of the events in first-seen order: no identity occurs
  twice, and every member has a name that is present and not empty.
\<close>

theorem discovery_set:
  assumes "devices w = []"
  shows "devices (scanEvents evs w)
           = firstSeen (filter (\<lambda>d. truthy (dev_name d)) (advertised evs))
         \<and> distinct (map dev_id (devices (scanEvents evs w)))
         \<and> (\<forall>d \<in> set (devices (scanEvents evs w)). \<exists>n. dev_name d = Some n \<and> n \<noteq> [])"
proof -
  have eq: "devices (scanEvents evs w)
           = firstSeen (filter (\<lambda>d. truthy (dev_name d)) (advertised evs))"
    using assms by (simp add: scanEvents_devices)
  have named: "\<And>d. truthy (dev_name d) \<Longrightarrow> \<exists>n. dev_name d = Some n \<and> n \<noteq> []"
    by (metis truthy.elims(2))
  have "set (devices (scanEvents evs w)) \<subseteq> {d. truthy (dev_name d)}"
    unfolding eq using firstSeen_subset by fastforce
  then show ?thesis using eq firstSeen_distinct named by auto
qed

theorem discovery_set_witness:
  "devices initial = []
   \<and> devices (scanEvents
        [(None, Some band),
         (None, Some \<lparr>dev_id = ''BB:02'', dev_name = None\<rparr>),
         (None, Some \<lparr>dev_id = ''CC:03'', dev_name = Some ''Scale''\<rparr>),
         (None, Some \<lparr>dev_id = ''AA:01'', dev_name = Some ''Band 2''\<rparr>),
         (None, Some \<lparr>dev_id = ''DD:04'', dev_name = Some ''''\<rparr>)] initial)
     = [band, \<lparr>dev_id = ''CC:03'', dev_name = Some ''Scale''\<rparr>]"
  using discovery_set [of initial
        "[(None, Some band),
         (None, Some \<lparr>dev_id = ''BB:02'', dev_name = None\<rparr>),
         (None, Some \<lparr>dev_id = ''CC:03'', dev_name = Some ''Scale''\<rparr>),
         (None, Some \<lparr>dev_id = ''AA:01'', dev_name = Some ''Band 2''\<rparr>),
         (None, Some \<lparr>dev_id = ''DD:04'', dev_name = Some ''''\<rparr>)]"]
  by (simp add: initial_def band_def)


text \<open>
  Claim C10. \<open>scanDevices\<close> with \<open>isScanning\<close> false in its closure and the adapter
  powered on empties the list, the connected device, the device information and the
  heart rate and sets \<open>isScanning\<close>; it asks the adapter state, starts the scan and sets
  the timer, and issues nothing else: no \<open>cancelConnection\<close> for a device that was
  connected.
\<close>

theorem scan_start_resets:
  assumes "\<not> c_isScanning c"
  shows "scanDevices c (Inr PoweredOn) w =
           (Inr (), w\<lparr>devices := [], isScanning := True, connectedDevice := None,
                      deviceInfo := None, heartRate := None,
                      effects := effects w @ [ManagerState, StartDeviceScan, SetTimeout 5000]\<rparr>)
         \<and> filter isCancelConnection (effects (snd (scanDevices c (Inr PoweredOn) w)))
             = filter isCancelConnection (effects w)"
  using assms by (simp add: scanDevices_def ensureBluetoothOn_def emit_def)

theorem scan_start_resets_witness:
  "\<not> c_isScanning (fst (render linked))
   \<and> connectedDevice (snd (render linked)) = Some band
   \<and> connectedDevice (snd (scanDevices (fst (render linked)) (Inr PoweredOn)
        (snd (render linked)))) = None
   \<and> filter isCancelConnection (effects (snd (scanDevices (fst (render linked))
        (Inr PoweredOn) (snd (render linked))))) = []"
proof -
  have c: "\<not> c_isScanning (fst (render linked))"
    and w: "connectedDevice (snd (render linked)) = Some band"
      "filter isCancelConnection (effects (snd (render linked))) = []"
    by (simp_all add: render_def linked_fields)
  show ?thesis
    using c w scan_start_resets [OF c, of "snd (render linked)"]
    by simp
qed

section \<open>Properties of the notification listener\<close>

text \<open>
  Claim C9. A notification without error whose payload has at least two bytes sets the
  heart rate to the second byte, read as an unsigned 8-bit number, and changes nothing
  else; after two such notifications the world is what the second alone would have
  made it.
\<close>

theorem heartRateListener_sample:
  assumes "2 \<le> length p" and "2 \<le> length q"
  shows "heartRateListener None (Some \<lparr>char_value = Some p\<rparr>) w
           = (Inr (), w\<lparr>heartRate := Some (unat (p ! 1))\<rparr>)
       \<and> snd (heartRateListener None (Some \<lparr>char_value = Some q\<rparr>)
           (snd (heartRateListener None (Some \<lparr>char_value = Some p\<rparr>) w)))
           = w\<lparr>heartRate := Some (unat (q ! 1))\<rparr>"
  using assms by (auto simp: heartRateListener_def Buffer_from_def readUInt8_def)

theorem heartRateListener_sample_witness:
  "heartRate (snd (heartRateListener None (Some \<lparr>char_value = Some [0, 72]\<rparr>) initial))
     = Some 72
   \<and> heartRate (snd (heartRateListener None (Some \<lparr>char_value = Some [0, 75]\<rparr>)
        (snd (heartRateListener None (Some \<lparr>char_value = Some [0, 72]\<rparr>) initial))))
     = Some 75"
proof -
  have l: "2 \<le> length [0 :: u8, 72]" "2 \<le> length [0 :: u8, 75]"
    by simp_all
  note s = heartRateListener_sample [OF l, of initial]
  show ?thesis
    unfolding s [THEN conjunct2] unfolding s [THEN conjunct1] by simp
qed

end
